theory Spec2Isabelle
  imports Main
begin

section \<open>Python values, exceptions and strings\<close>

text \<open>
  The values a caller puts into a row mapping or passes as a row id.  The example script at
  the bottom of \<^verbatim>\<open>scaler.py\<close> uses strings and integers.
\<close>

datatype pyval = PyInt int | PyStr string

text \<open>
  What a method hands back to its caller: \<^verbatim>\<open>None\<close>, or the list of names that
  \<^verbatim>\<open>list_databases\<close> returns.
\<close>

datatype retval = PyNone | PyList "string list"

text \<open>
  The exceptions that occur: an error raised by the database driver (connection refused,
  statement rejected, object already closed), a read of a local variable that was never
  assigned, an attribute access on \<^verbatim>\<open>None\<close>, and an index out of range.
\<close>

datatype exn =
    DriverError string
  | UnboundLocalError string
  | AttributeError string
  | IndexError

definition sq :: "string \<Rightarrow> string" where
  "sq s = CHR 0x27 # s @ [CHR 0x27]"

definition exn_str :: "exn \<Rightarrow> string" where
  "exn_str e =
     (case e of
        DriverError m \<Rightarrow> m
      | UnboundLocalError v \<Rightarrow>
          ''cannot access local variable '' @ sq v @ '' where it is not associated with a value''
      | AttributeError a \<Rightarrow> sq ''NoneType'' @ '' object has no attribute '' @ sq a
      | IndexError \<Rightarrow> ''tuple index out of range'')"

fun join :: "string \<Rightarrow> string list \<Rightarrow> string" where
  "join sep [] = []"
| "join sep [x] = x"
| "join sep (x # y # ys) = x @ sep @ join sep (y # ys)"

definition digit :: "nat \<Rightarrow> char" where
  "digit d = char_of (48 + d)"

function nat_str :: "nat \<Rightarrow> string" where
  "nat_str n = (if n < 10 then [digit n] else nat_str (n div 10) @ [digit (n mod 10)])"
  by pat_completeness auto
termination
  by (relation "measure id") auto

declare nat_str.simps [simp del]

definition int_str :: "int \<Rightarrow> string" where
  "int_str i = (if i < 0 then CHR ''-'' # nat_str (nat (- i)) else nat_str (nat i))"

text \<open>\<^verbatim>\<open>str(v)\<close>, as an f-string formats a value.\<close>

definition str :: "pyval \<Rightarrow> string" where
  "str v = (case v of PyInt i \<Rightarrow> int_str i | PyStr s \<Rightarrow> s)"

section \<open>The driver's SQL composition\<close>

text \<open>
  \<^verbatim>\<open>sql.Identifier(name)\<close> renders a name as a quoted identifier: wrapped in double
  quotes, every double quote inside it doubled.
\<close>

definition dq :: char where
  "dq = CHR 0x22"

definition Identifier :: "string \<Rightarrow> string" where
  "Identifier s = dq # concat (map (\<lambda>c. if c = dq then [dq, dq] else [c]) s) @ [dq]"

text \<open>
  \<^verbatim>\<open>sql.Literal(value)\<close> renders a value as an SQL literal: an integer as its digits
  (a negative one after a space), a string in single quotes with every single quote inside
  it doubled.
\<close>

definition Literal :: "pyval \<Rightarrow> string" where
  "Literal v =
     (case v of
        PyInt i \<Rightarrow> (if i < 0 then CHR '' '' # int_str i else int_str i)
      | PyStr s \<Rightarrow>
          CHR 0x27 # concat (map (\<lambda>c. if c = CHR 0x27 then [CHR 0x27, CHR 0x27] else [c]) s)
            @ [CHR 0x27])"

section \<open>The database driver and the console\<close>

text \<open>
  The driver's objects live in a store: a connection and a cursor are the index of their
  entry.  A connection or cursor object is always truthy in Python, closed or not.
\<close>

record conn =
  c_dbname :: string
  c_user :: string
  c_password :: string
  c_host :: string
  c_port :: string
  c_autocommit :: bool
  c_closed :: bool

record curs =
  k_conn :: nat
  k_closed :: bool

text \<open>The calls made on the driver, in order.\<close>

datatype request =
    Connect string string string string string
  | OpenCursor nat
  | Execute nat string "pyval list"
  | Fetchall nat
  | Commit nat
  | CloseCursor nat
  | CloseConn nat

text \<open>
  How the server answers a call that can fail: it succeeds, it succeeds with rows (for
  \<^verbatim>\<open>fetchall\<close>), or it raises with a message.  The \<open>script\<close> of a world holds the
  answers to the coming calls, so that a property proved for every script holds whatever
  the server does; when the script is used up every call succeeds.
\<close>

datatype reply = Done | Rows "string list list" | Fails string

record world =
  conns :: "conn list"
  cursors :: "curs list"
  calls :: "request list"
  out :: "string list"
  script :: "reply list"

definition py_print :: "string \<Rightarrow> world \<Rightarrow> world" where
  "py_print s w = w\<lparr>out := out w @ [s]\<rparr>"

definition sent :: "request \<Rightarrow> world \<Rightarrow> world" where
  "sent r w = w\<lparr>calls := calls w @ [r]\<rparr>"

definition next_reply :: "world \<Rightarrow> reply \<times> world" where
  "next_reply w = (case script w of [] \<Rightarrow> (Done, w) | r # rs \<Rightarrow> (r, w\<lparr>script := rs\<rparr>))"

definition conn_closed :: "world \<Rightarrow> nat \<Rightarrow> bool" where
  "conn_closed w c = (c < length (conns w) \<and> c_closed (conns w ! c))"

definition curs_closed :: "world \<Rightarrow> nat \<Rightarrow> bool" where
  "curs_closed w k = (k < length (cursors w) \<and> k_closed (cursors w ! k))"

definition conn_of :: "world \<Rightarrow> nat \<Rightarrow> nat option" where
  "conn_of w k = (if k < length (cursors w) then Some (k_conn (cursors w ! k)) else None)"

text \<open>\<^verbatim>\<open>psycopg2.connect(dbname=..., user=..., password=..., host=..., port=...)\<close>\<close>

definition drv_connect ::
  "string \<Rightarrow> string \<Rightarrow> string \<Rightarrow> string \<Rightarrow> string \<Rightarrow> world \<Rightarrow> (exn + nat) \<times> world" where
  "drv_connect db u pw h p w =
     (case next_reply (sent (Connect db u pw h p) w) of
        (Fails m, w1) \<Rightarrow> (Inl (DriverError m), w1)
      | (_, w1) \<Rightarrow>
          (Inr (length (conns w1)),
           w1\<lparr>conns := conns w1 @
                [\<lparr>c_dbname = db, c_user = u, c_password = pw, c_host = h, c_port = p,
                  c_autocommit = False, c_closed = False\<rparr>]\<rparr>))"

text \<open>\<^verbatim>\<open>connection.autocommit = True\<close>\<close>

definition drv_set_autocommit :: "nat \<Rightarrow> bool \<Rightarrow> world \<Rightarrow> world" where
  "drv_set_autocommit c b w =
     (if c < length (conns w) then w\<lparr>conns := (conns w)[c := (conns w ! c)\<lparr>c_autocommit := b\<rparr>]\<rparr>
      else w)"

text \<open>\<^verbatim>\<open>connection.cursor()\<close>: refused on a closed connection.\<close>

definition drv_cursor :: "nat \<Rightarrow> world \<Rightarrow> (exn + nat) \<times> world" where
  "drv_cursor c w =
     (if conn_closed w c then (Inl (DriverError ''connection already closed''), w)
      else case next_reply (sent (OpenCursor c) w) of
        (Fails m, w1) \<Rightarrow> (Inl (DriverError m), w1)
      | (_, w1) \<Rightarrow>
          (Inr (length (cursors w1)),
           w1\<lparr>cursors := cursors w1 @ [\<lparr>k_conn = c, k_closed = False\<rparr>]\<rparr>))"

definition usable :: "world \<Rightarrow> nat \<Rightarrow> exn option" where
  "usable w k =
     (if curs_closed w k then Some (DriverError ''cursor already closed'')
      else case conn_of w k of
        None \<Rightarrow> None
      | Some c \<Rightarrow> if conn_closed w c then Some (DriverError ''connection already closed'') else None)"

text \<open>\<^verbatim>\<open>cursor.execute(query, params)\<close>: refused on a closed cursor or connection.\<close>

definition drv_execute :: "nat \<Rightarrow> string \<Rightarrow> pyval list \<Rightarrow> world \<Rightarrow> (exn + unit) \<times> world" where
  "drv_execute k q params w =
     (case usable w k of
        Some e \<Rightarrow> (Inl e, w)
      | None \<Rightarrow>
          (case next_reply (sent (Execute k q params) w) of
             (Fails m, w1) \<Rightarrow> (Inl (DriverError m), w1)
           | (_, w1) \<Rightarrow> (Inr (), w1)))"

text \<open>\<^verbatim>\<open>cursor.fetchall()\<close>\<close>

definition drv_fetchall :: "nat \<Rightarrow> world \<Rightarrow> (exn + string list list) \<times> world" where
  "drv_fetchall k w =
     (case usable w k of
        Some e \<Rightarrow> (Inl e, w)
      | None \<Rightarrow>
          (case next_reply (sent (Fetchall k) w) of
             (Fails m, w1) \<Rightarrow> (Inl (DriverError m), w1)
           | (Rows rs, w1) \<Rightarrow> (Inr rs, w1)
           | (Done, w1) \<Rightarrow> (Inr [], w1)))"

text \<open>\<^verbatim>\<open>connection.commit()\<close>: refused on a closed connection.\<close>

definition drv_commit :: "nat \<Rightarrow> world \<Rightarrow> (exn + unit) \<times> world" where
  "drv_commit c w =
     (if conn_closed w c then (Inl (DriverError ''connection already closed''), w)
      else case next_reply (sent (Commit c) w) of
        (Fails m, w1) \<Rightarrow> (Inl (DriverError m), w1)
      | (_, w1) \<Rightarrow> (Inr (), w1))"

text \<open>
  \<^verbatim>\<open>cursor.close()\<close> and \<^verbatim>\<open>connection.close()\<close> never raise, also on an object that
  is closed already.
\<close>

definition drv_close_cursor :: "nat \<Rightarrow> world \<Rightarrow> world" where
  "drv_close_cursor k w =
     (let w1 = sent (CloseCursor k) w
      in if k < length (cursors w1)
         then w1\<lparr>cursors := (cursors w1)[k := (cursors w1 ! k)\<lparr>k_closed := True\<rparr>]\<rparr>
         else w1)"

definition drv_close_conn :: "nat \<Rightarrow> world \<Rightarrow> world" where
  "drv_close_conn c w =
     (let w1 = sent (CloseConn c) w
      in if c < length (conns w1)
         then w1\<lparr>conns := (conns w1)[c := (conns w1 ! c)\<lparr>c_closed := True\<rparr>]\<rparr>
         else w1)"

section \<open>The facade\<close>

record facade =
  user :: string
  password :: string
  host :: string
  port :: string
  connection :: "nat option"
  cursor :: "nat option"

text \<open>\<^verbatim>\<open>__init__(self, user, password, host='localhost', port='5432')\<close>\<close>

definition init :: "string \<Rightarrow> string \<Rightarrow> string option \<Rightarrow> string option \<Rightarrow> facade" where
  "init u pw h p =
     \<lparr>user = u, password = pw,
      host = (case h of None \<Rightarrow> ''localhost'' | Some x \<Rightarrow> x),
      port = (case p of None \<Rightarrow> ''5432'' | Some x \<Rightarrow> x),
      connection = None, cursor = None\<rparr>"

subsection \<open>The maintenance operations\<close>

text \<open>
  \<^verbatim>\<open>except Exception as e: print(f"Error: {e}")\<close>: the exception is printed and the
  method goes on to return \<^verbatim>\<open>None\<close>.
\<close>

definition except_print :: "exn + retval \<Rightarrow> world \<Rightarrow> retval \<times> world" where
  "except_print r w =
     (case r of
        Inl e \<Rightarrow> (PyNone, py_print (''Error: '' @ exn_str e) w)
      | Inr v \<Rightarrow> (v, w))"

text \<open>
  The \<^verbatim>\<open>finally\<close> block of \<^verbatim>\<open>create_database\<close> and \<^verbatim>\<open>list_databases\<close>:
  \<^verbatim>\<open>if cursor: cursor.close()\<close>, then \<^verbatim>\<open>if connection: connection.close()\<close>.  The two
  names are locals of the method, assigned only inside the \<^verbatim>\<open>try\<close>; \<open>None\<close> here is a
  local that was never assigned, and reading it raises.
\<close>

definition finally_close :: "nat option \<Rightarrow> nat option \<Rightarrow> world \<Rightarrow> exn option \<times> world" where
  "finally_close con cur w =
     (case cur of
        None \<Rightarrow> (Some (UnboundLocalError ''cursor''), w)
      | Some k \<Rightarrow>
          (let w1 = drv_close_cursor k w
           in case con of
                None \<Rightarrow> (Some (UnboundLocalError ''connection''), w1)
              | Some c \<Rightarrow> (None, drv_close_conn c w1)))"

text \<open>
  The \<^verbatim>\<open>try\<close> body of \<^verbatim>\<open>create_database\<close>, with the locals \<^verbatim>\<open>connection\<close> and
  \<^verbatim>\<open>cursor\<close> as far as they were assigned.
\<close>

definition create_database_try ::
  "facade \<Rightarrow> string \<Rightarrow> world \<Rightarrow> (exn + retval) \<times> nat option \<times> nat option \<times> world" where
  "create_database_try self dbname w =
     (case drv_connect ''postgres'' (user self) (password self) (host self) (port self) w of
        (Inl e, w1) \<Rightarrow> (Inl e, None, None, w1)
      | (Inr c, w1) \<Rightarrow>
          (case drv_cursor c (drv_set_autocommit c True w1) of
             (Inl e, w2) \<Rightarrow> (Inl e, Some c, None, w2)
           | (Inr k, w2) \<Rightarrow>
               (case drv_execute k (''CREATE DATABASE '' @ dbname) [] w2 of
                  (Inl e, w3) \<Rightarrow> (Inl e, Some c, Some k, w3)
                | (Inr _, w3) \<Rightarrow>
                    (Inr PyNone, Some c, Some k,
                     py_print (''Database '' @ sq dbname @ '' created successfully!'') w3))))"

definition create_database ::
  "facade \<Rightarrow> string \<Rightarrow> world \<Rightarrow> (exn + retval) \<times> facade \<times> world" where
  "create_database self dbname w =
     (case create_database_try self dbname w of
        (r, con, cur, w1) \<Rightarrow>
          (case except_print r w1 of
             (v, w2) \<Rightarrow>
               (case finally_close con cur w2 of
                  (Some e, w3) \<Rightarrow> (Inl e, self, w3)
                | (None, w3) \<Rightarrow> (Inr v, self, w3))))"

text \<open>\<^verbatim>\<open>[db[0] for db in databases]\<close>\<close>

fun first_column :: "string list list \<Rightarrow> exn + string list" where
  "first_column [] = Inr []"
| "first_column (db # dbs) =
     (case db of
        [] \<Rightarrow> Inl IndexError
      | x # _ \<Rightarrow> (case first_column dbs of Inl e \<Rightarrow> Inl e | Inr xs \<Rightarrow> Inr (x # xs)))"

definition list_databases_try ::
  "facade \<Rightarrow> world \<Rightarrow> (exn + retval) \<times> nat option \<times> nat option \<times> world" where
  "list_databases_try self w =
     (case drv_connect ''postgres'' (user self) (password self) (host self) (port self) w of
        (Inl e, w1) \<Rightarrow> (Inl e, None, None, w1)
      | (Inr c, w1) \<Rightarrow>
          (case drv_cursor c w1 of
             (Inl e, w2) \<Rightarrow> (Inl e, Some c, None, w2)
           | (Inr k, w2) \<Rightarrow>
               (case drv_execute k
                       ''SELECT datname FROM pg_database WHERE datistemplate = false;'' [] w2 of
                  (Inl e, w3) \<Rightarrow> (Inl e, Some c, Some k, w3)
                | (Inr _, w3) \<Rightarrow>
                    (case drv_fetchall k w3 of
                       (Inl e, w4) \<Rightarrow> (Inl e, Some c, Some k, w4)
                     | (Inr databases, w4) \<Rightarrow>
                         (case first_column databases of
                            Inl e \<Rightarrow> (Inl e, Some c, Some k, w4)
                          | Inr names \<Rightarrow> (Inr (PyList names), Some c, Some k, w4))))))"

definition list_databases :: "facade \<Rightarrow> world \<Rightarrow> (exn + retval) \<times> facade \<times> world" where
  "list_databases self w =
     (case list_databases_try self w of
        (r, con, cur, w1) \<Rightarrow>
          (case except_print r w1 of
             (v, w2) \<Rightarrow>
               (case finally_close con cur w2 of
                  (Some e, w3) \<Rightarrow> (Inl e, self, w3)
                | (None, w3) \<Rightarrow> (Inr v, self, w3))))"

subsection \<open>The session operations\<close>

text \<open>
  \<^verbatim>\<open>self.connection\<close> is assigned as soon as \<^verbatim>\<open>connect\<close> returns, \<^verbatim>\<open>self.cursor\<close>
  after it; an exception at either step is printed and leaves the fields as they are then.
\<close>

definition switch_database ::
  "facade \<Rightarrow> string \<Rightarrow> world \<Rightarrow> (exn + retval) \<times> facade \<times> world" where
  "switch_database self dbname w =
     (case drv_connect dbname (user self) (password self) (host self) (port self) w of
        (Inl e, w1) \<Rightarrow> (Inr PyNone, self, py_print (''Error: '' @ exn_str e) w1)
      | (Inr c, w1) \<Rightarrow>
          (let self1 = self\<lparr>connection := Some c\<rparr>
           in case drv_cursor c w1 of
                (Inl e, w2) \<Rightarrow> (Inr PyNone, self1, py_print (''Error: '' @ exn_str e) w2)
              | (Inr k, w2) \<Rightarrow>
                  (Inr PyNone, self1\<lparr>cursor := Some k\<rparr>,
                   py_print (''Successfully switched to database '' @ sq dbname @ ''.'') w2)))"

text \<open>
  \<^verbatim>\<open>self.cursor.execute(query, params)\<close> and \<^verbatim>\<open>self.connection.commit()\<close>: the
  attribute access raises when the field is \<^verbatim>\<open>None\<close>.  A call without parameters has
  the empty parameter list.
\<close>

definition cursor_execute ::
  "facade \<Rightarrow> string \<Rightarrow> pyval list \<Rightarrow> world \<Rightarrow> (exn + unit) \<times> world" where
  "cursor_execute self q params w =
     (case cursor self of
        None \<Rightarrow> (Inl (AttributeError ''execute''), w)
      | Some k \<Rightarrow> drv_execute k q params w)"

definition connection_commit :: "facade \<Rightarrow> world \<Rightarrow> (exn + unit) \<times> world" where
  "connection_commit self w =
     (case connection self of
        None \<Rightarrow> (Inl (AttributeError ''commit''), w)
      | Some c \<Rightarrow> drv_commit c w)"

text \<open>
  The tail every session operation shares: execute the statement, commit, print the line
  of success; an exception on the way is printed instead.  The method returns \<^verbatim>\<open>None\<close>.
\<close>

definition execute_commit ::
  "facade \<Rightarrow> string \<Rightarrow> pyval list \<Rightarrow> string \<Rightarrow> world \<Rightarrow> (exn + retval) \<times> facade \<times> world" where
  "execute_commit self q params ok w =
     (case cursor_execute self q params w of
        (Inl e, w1) \<Rightarrow> (Inr PyNone, self, py_print (''Error: '' @ exn_str e) w1)
      | (Inr _, w1) \<Rightarrow>
          (case connection_commit self w1 of
             (Inl e, w2) \<Rightarrow> (Inr PyNone, self, py_print (''Error: '' @ exn_str e) w2)
           | (Inr _, w2) \<Rightarrow> (Inr PyNone, self, py_print ok w2)))"

definition create_table_query :: "string \<Rightarrow> (string \<times> string) list option \<Rightarrow> string" where
  "create_table_query table_name columns =
     (case columns of
        None \<Rightarrow> ''CREATE TABLE '' @ Identifier table_name @ '' ()''
      | Some [] \<Rightarrow> ''CREATE TABLE '' @ Identifier table_name @ '' ()''
      | Some cols \<Rightarrow>
          ''CREATE TABLE '' @ Identifier table_name @ '' (''
            @ join '', '' (map (\<lambda>col. fst col @ '' '' @ snd col) cols) @ '')'')"

definition create_table ::
  "facade \<Rightarrow> string \<Rightarrow> (string \<times> string) list option \<Rightarrow> world
     \<Rightarrow> (exn + retval) \<times> facade \<times> world" where
  "create_table self table_name columns w =
     (if connection self = None \<or> cursor self = None
      then (Inr PyNone, self, py_print ''Not connected to any database.'' w)
      else execute_commit self (create_table_query table_name columns) []
             (''Table '' @ sq table_name @ '' created successfully!'') w)"

definition add_column_query :: "string \<Rightarrow> string \<Rightarrow> string \<Rightarrow> string" where
  "add_column_query table_name column_name column_type =
     ''ALTER TABLE '' @ Identifier table_name @ '' ADD COLUMN '' @ Identifier column_name
       @ '' '' @ column_type"

definition add_column ::
  "facade \<Rightarrow> string \<Rightarrow> string \<Rightarrow> string \<Rightarrow> string \<Rightarrow> world
     \<Rightarrow> (exn + retval) \<times> facade \<times> world" where
  "add_column self dbname table_name column_name column_type w =
     (case switch_database self dbname w of
        (_, self1, w1) \<Rightarrow>
          execute_commit self1 (add_column_query table_name column_name column_type) []
            (''Column '' @ sq column_name @ '' of type '' @ sq column_type
               @ '' added to table '' @ sq table_name @ ''.'') w1)"

text \<open>A row mapping is a Python dict: its items in insertion order.\<close>

definition insert_query :: "string \<Rightarrow> (string \<times> pyval) list \<Rightarrow> string" where
  "insert_query table_name column_values =
     ''INSERT INTO '' @ Identifier table_name @ '' (''
       @ join '', '' (map Identifier (map fst column_values)) @ '') VALUES (''
       @ join '', '' (map Literal (map snd column_values)) @ '')''"

definition insert_row ::
  "facade \<Rightarrow> string \<Rightarrow> string \<Rightarrow> (string \<times> pyval) list \<Rightarrow> world
     \<Rightarrow> (exn + retval) \<times> facade \<times> world" where
  "insert_row self dbname table_name column_values w =
     (case switch_database self dbname w of
        (_, self1, w1) \<Rightarrow>
          execute_commit self1 (insert_query table_name column_values) []
            (''Row inserted into table '' @ sq table_name @ ''.'') w1)"

definition delete_query :: "string \<Rightarrow> string" where
  "delete_query table_name = ''DELETE FROM '' @ Identifier table_name @ '' WHERE id = %s''"

definition delete_row ::
  "facade \<Rightarrow> string \<Rightarrow> string \<Rightarrow> pyval \<Rightarrow> world \<Rightarrow> (exn + retval) \<times> facade \<times> world" where
  "delete_row self dbname table_name row_id w =
     (case switch_database self dbname w of
        (_, self1, w1) \<Rightarrow>
          execute_commit self1 (delete_query table_name) [row_id]
            (''Row with id '' @ str row_id @ '' deleted from table '' @ sq table_name @ ''.'')
            w1)"

definition set_clause :: "(string \<times> pyval) list \<Rightarrow> string" where
  "set_clause update_data = join '', '' (map (\<lambda>key. key @ '' = %s'') (map fst update_data))"

definition update_query :: "string \<Rightarrow> (string \<times> pyval) list \<Rightarrow> string" where
  "update_query table_name update_data =
     ''UPDATE '' @ Identifier table_name @ '' SET '' @ set_clause update_data
       @ '' WHERE id = %s''"

definition update_row ::
  "facade \<Rightarrow> string \<Rightarrow> string \<Rightarrow> pyval \<Rightarrow> (string \<times> pyval) list \<Rightarrow> world
     \<Rightarrow> (exn + retval) \<times> facade \<times> world" where
  "update_row self dbname table_name row_id update_data w =
     (case switch_database self dbname w of
        (_, self1, w1) \<Rightarrow>
          execute_commit self1 (update_query table_name update_data)
            (map snd update_data @ [row_id])
            (''Row with id '' @ str row_id @ '' updated in table '' @ sq table_name @ ''.'')
            w1)"

definition close_connection :: "facade \<Rightarrow> world \<Rightarrow> (exn + retval) \<times> facade \<times> world" where
  "close_connection self w =
     (let w1 = (case cursor self of None \<Rightarrow> w | Some k \<Rightarrow> drv_close_cursor k w);
          w2 = (case connection self of
                  None \<Rightarrow> w1
                | Some c \<Rightarrow> py_print ''Connection closed.'' (drv_close_conn c w1))
      in (Inr PyNone, self, w2))"

section \<open>Reading results and states\<close>

text \<open>The three parts of what an operation yields.\<close>

definition result_of :: "(exn + retval) \<times> facade \<times> world \<Rightarrow> exn + retval" where
  "result_of r = fst r"

definition facade_of :: "(exn + retval) \<times> facade \<times> world \<Rightarrow> facade" where
  "facade_of r = fst (snd r)"

definition world_of :: "(exn + retval) \<times> facade \<times> world \<Rightarrow> world" where
  "world_of r = snd (snd r)"

definition credentials :: "facade \<Rightarrow> string \<times> string \<times> string \<times> string" where
  "credentials self = (user self, password self, host self, port self)"

text \<open>The process at its start: no driver object exists, nothing was printed.\<close>

definition fresh :: "reply list \<Rightarrow> world" where
  "fresh rs = \<lparr>conns = [], cursors = [], calls = [], out = [], script = rs\<rparr>"

text \<open>The connect call a facade makes for a database, and the connection it gets.\<close>

definition connect_request :: "facade \<Rightarrow> string \<Rightarrow> request" where
  "connect_request self db = Connect db (user self) (password self) (host self) (port self)"

definition new_conn :: "facade \<Rightarrow> string \<Rightarrow> conn" where
  "new_conn self db =
     \<lparr>c_dbname = db, c_user = user self, c_password = password self, c_host = host self,
      c_port = port self, c_autocommit = False, c_closed = False\<rparr>"

section \<open>Runs on a server that accepts every call\<close>

lemmas driver_defs =
  drv_connect_def drv_cursor_def drv_set_autocommit_def drv_execute_def drv_fetchall_def
  drv_commit_def drv_close_cursor_def drv_close_conn_def usable_def curs_closed_def conn_of_def
  conn_closed_def next_reply_def sent_def py_print_def

lemmas proj_defs = result_of_def facade_of_def world_of_def

lemma switch_database_ok:
  "script w = [] \<Longrightarrow>
   switch_database self db w =
     (Inr PyNone,
      self\<lparr>connection := Some (length (conns w)), cursor := Some (length (cursors w))\<rparr>,
      w\<lparr>conns := conns w @ [new_conn self db],
        cursors := cursors w @ [\<lparr>k_conn = length (conns w), k_closed = False\<rparr>],
        calls := calls w @ [connect_request self db, OpenCursor (length (conns w))],
        out := out w @ [''Successfully switched to database '' @ sq db @ ''.'']\<rparr>)"
  by (simp add: switch_database_def driver_defs new_conn_def connect_request_def nth_append)

lemma session_ok:
  "script w = [] \<Longrightarrow>
   (case switch_database self db w of (_, self1, w1) \<Rightarrow> execute_commit self1 q ps ok w1) =
     (Inr PyNone,
      self\<lparr>connection := Some (length (conns w)), cursor := Some (length (cursors w))\<rparr>,
      w\<lparr>conns := conns w @ [new_conn self db],
        cursors := cursors w @ [\<lparr>k_conn = length (conns w), k_closed = False\<rparr>],
        calls := calls w @ [connect_request self db, OpenCursor (length (conns w)),
                            Execute (length (cursors w)) q ps, Commit (length (conns w))],
        out := out w @ [''Successfully switched to database '' @ sq db @ ''.'', ok]\<rparr>)"
  by (simp add: switch_database_ok execute_commit_def cursor_execute_def connection_commit_def
      driver_defs new_conn_def nth_append)

lemma create_database_ok:
  "script w = [] \<Longrightarrow>
   create_database self db w =
     (Inr PyNone, self,
      w\<lparr>conns := conns w @
                 [(new_conn self ''postgres'')\<lparr>c_autocommit := True, c_closed := True\<rparr>],
        cursors := cursors w @ [\<lparr>k_conn = length (conns w), k_closed = True\<rparr>],
        calls := calls w @ [connect_request self ''postgres'', OpenCursor (length (conns w)),
                            Execute (length (cursors w)) (''CREATE DATABASE '' @ db) [],
                            CloseCursor (length (cursors w)), CloseConn (length (conns w))],
        out := out w @ [''Database '' @ sq db @ '' created successfully!'']\<rparr>)"
  by (simp add: create_database_def create_database_try_def except_print_def finally_close_def
      driver_defs nth_append new_conn_def connect_request_def Let_def)

section \<open>Exceptions and cleanup\<close>

text \<open>
  The operations that hold their whole body in \<^verbatim>\<open>try ... except Exception\<close> and have no
  \<^verbatim>\<open>finally\<close>, and \<^verbatim>\<open>close_connection\<close>, return \<^verbatim>\<open>None\<close> whatever the server does.
\<close>

lemma session_operations_return_none:
  "result_of (switch_database self db w) = Inr PyNone"
  "result_of (create_table self t cols w) = Inr PyNone"
  "result_of (add_column self db t c ty w) = Inr PyNone"
  "result_of (insert_row self db t cv w) = Inr PyNone"
  "result_of (delete_row self db t rid w) = Inr PyNone"
  "result_of (update_row self db t rid upd w) = Inr PyNone"
  "result_of (close_connection self w) = Inr PyNone"
  by (simp_all add: switch_database_def create_table_def add_column_def insert_row_def
      delete_row_def update_row_def close_connection_def execute_commit_def proj_defs Let_def
      split: prod.splits sum.splits)

text \<open>
  Claim C1 (every public operation catches every exception, prints it and returns None; none
  propagates an exception).  The code breaks it in \<^verbatim>\<open>create_database\<close>: when
  \<^verbatim>\<open>psycopg2.connect\<close> raises, the \<^verbatim>\<open>except\<close> clause prints the error, and the
  \<^verbatim>\<open>finally\<close> block then reads the local \<^verbatim>\<open>cursor\<close>, which was never assigned.  The
  UnboundLocalError raised there leaves the method: the caller gets an exception, for every
  facade, database name and earlier state.
\<close>

theorem create_database_propagates_unbound_local:
  "result_of (create_database self dbname (w\<lparr>script := Fails m # rs\<rparr>))
     = Inl (UnboundLocalError ''cursor'')"
  by (simp add: create_database_def create_database_try_def except_print_def finally_close_def
      driver_defs proj_defs)

text \<open>
  Claim C5 (create_database and list_databases release the connection and cursor they opened
  on every exit path, and the cleanup never faults).  The code breaks it: when the connect
  call of \<^verbatim>\<open>list_databases\<close> raises, the cleanup itself raises UnboundLocalError; and when
  the connect call of \<^verbatim>\<open>create_database\<close> succeeds and \<^verbatim>\<open>connection.cursor()\<close>
  raises, the cleanup raises at \<^verbatim>\<open>if cursor:\<close> before it reaches
  \<^verbatim>\<open>connection.close()\<close>, so the connection that the call opened is still open when the
  call ends.
\<close>

theorem maintenance_cleanup_faults:
  "result_of (list_databases self (w\<lparr>script := Fails m # rs\<rparr>))
     = Inl (UnboundLocalError ''cursor'')
   \<and> result_of (create_database self dbname (w\<lparr>script := Done # Fails m # rs\<rparr>))
     = Inl (UnboundLocalError ''cursor'')
   \<and> length (conns (world_of (create_database self dbname (w\<lparr>script := Done # Fails m # rs\<rparr>))))
     = Suc (length (conns w))
   \<and> \<not> conn_closed (world_of (create_database self dbname (w\<lparr>script := Done # Fails m # rs\<rparr>)))
         (length (conns w))"
  by (simp add: create_database_def create_database_try_def list_databases_def
      list_databases_try_def except_print_def finally_close_def
      driver_defs proj_defs nth_append)

lemma create_table_ok:
  "script w = [] \<Longrightarrow>
   create_table (facade_of (switch_database self db w)) t cols
       (world_of (switch_database self db w)) =
     (Inr PyNone,
      self\<lparr>connection := Some (length (conns w)), cursor := Some (length (cursors w))\<rparr>,
      w\<lparr>conns := conns w @ [new_conn self db],
        cursors := cursors w @ [\<lparr>k_conn = length (conns w), k_closed = False\<rparr>],
        calls := calls w @ [connect_request self db, OpenCursor (length (conns w)),
                            Execute (length (cursors w)) (create_table_query t cols) [],
                            Commit (length (conns w))],
        out := out w @ [''Successfully switched to database '' @ sq db @ ''.'',
                        ''Table '' @ sq t @ '' created successfully!'']\<rparr>)"
  by (simp add: switch_database_ok create_table_def execute_commit_def cursor_execute_def
      connection_commit_def driver_defs proj_defs new_conn_def nth_append)

lemma create_table_query_simps:
  "create_table_query t None = ''CREATE TABLE '' @ Identifier t @ '' ()''"
  "create_table_query t (Some []) = ''CREATE TABLE '' @ Identifier t @ '' ()''"
  "create_table_query t (Some (col # cols)) =
     ''CREATE TABLE '' @ Identifier t @ '' (''
       @ join '', '' (map (\<lambda>col. fst col @ '' '' @ snd col) (col # cols)) @ '')''"
  by (simp_all add: create_table_query_def)

section \<open>Identifiers in the statements\<close>

text \<open>
  Claim C2 (an identifier that contains SQL metacharacters is rejected with a
  ValidationError before it is interpolated), as the spec states it, fails on the code:
  no operation checks a name, and \<^verbatim>\<open>create_database\<close> sends the name as part of the
  statement text.  Here the facade of the example script creates the database
  \<^verbatim>\<open>x; DROP DATABASE y\<close>: the call returns \<^verbatim>\<open>None\<close>, and the statement that went to
  the server holds the name as it was given.
\<close>

theorem create_database_injection_counterexample:
  "result_of (create_database (init ''postgres'' ''postgres'' None None)
                ''x; DROP DATABASE y'' (fresh [])) = Inr PyNone
   \<and> calls (world_of (create_database (init ''postgres'' ''postgres'' None None)
                ''x; DROP DATABASE y'' (fresh [])))
     = [Connect ''postgres'' ''postgres'' ''postgres'' ''localhost'' ''5432'',
        OpenCursor 0,
        Execute 0 ''CREATE DATABASE x; DROP DATABASE y'' [],
        CloseCursor 0, CloseConn 0]"
  by (simp add: create_database_ok fresh_def init_def proj_defs connect_request_def)

text \<open>
  Claim C2, amended: no operation rejects an identifier.  On a server that accepts every
  call, \<^verbatim>\<open>create_database\<close> sends \<^verbatim>\<open>CREATE DATABASE\<close> followed by the database name
  as given; \<^verbatim>\<open>create_table\<close>, \<^verbatim>\<open>add_column\<close>, \<^verbatim>\<open>insert_row\<close>, \<^verbatim>\<open>delete_row\<close> and
  \<^verbatim>\<open>update_row\<close> send the table name, and \<^verbatim>\<open>add_column\<close> and \<^verbatim>\<open>insert_row\<close> the
  column names, as quoted identifiers; the column names and types of \<^verbatim>\<open>create_table\<close>,
  the type of \<^verbatim>\<open>add_column\<close> and the keys of \<^verbatim>\<open>update_row\<close> go into the text as given.
  This holds for every facade, every name and every earlier state of the driver.
\<close>

theorem identifiers_never_rejected:
  "calls (world_of (create_database self dbname (w\<lparr>script := []\<rparr>)))
     = calls w @ [connect_request self ''postgres'', OpenCursor (length (conns w)),
                  Execute (length (cursors w)) (''CREATE DATABASE '' @ dbname) [],
                  CloseCursor (length (cursors w)), CloseConn (length (conns w))]
   \<and> calls (world_of (create_table
                         (facade_of (switch_database self dbname (w\<lparr>script := []\<rparr>)))
                         table_name (Some (col # cols))
                         (world_of (switch_database self dbname (w\<lparr>script := []\<rparr>)))))
     = calls w @ [connect_request self dbname, OpenCursor (length (conns w)),
                  Execute (length (cursors w))
                    (''CREATE TABLE '' @ Identifier table_name @ '' (''
                       @ join '', '' (map (\<lambda>col. fst col @ '' '' @ snd col) (col # cols))
                       @ '')'') [],
                  Commit (length (conns w))]
   \<and> calls (world_of (add_column self dbname table_name column_name column_type
                         (w\<lparr>script := []\<rparr>)))
     = calls w @ [connect_request self dbname, OpenCursor (length (conns w)),
                  Execute (length (cursors w))
                    (''ALTER TABLE '' @ Identifier table_name @ '' ADD COLUMN ''
                       @ Identifier column_name @ '' '' @ column_type) [],
                  Commit (length (conns w))]
   \<and> calls (world_of (insert_row self dbname table_name column_values (w\<lparr>script := []\<rparr>)))
     = calls w @ [connect_request self dbname, OpenCursor (length (conns w)),
                  Execute (length (cursors w))
                    (''INSERT INTO '' @ Identifier table_name @ '' (''
                       @ join '', '' (map (\<lambda>kv. Identifier (fst kv)) column_values)
                       @ '') VALUES (''
                       @ join '', '' (map (\<lambda>kv. Literal (snd kv)) column_values) @ '')'') [],
                  Commit (length (conns w))]
   \<and> calls (world_of (delete_row self dbname table_name row_id (w\<lparr>script := []\<rparr>)))
     = calls w @ [connect_request self dbname, OpenCursor (length (conns w)),
                  Execute (length (cursors w))
                    (''DELETE FROM '' @ Identifier table_name @ '' WHERE id = %s'') [row_id],
                  Commit (length (conns w))]
   \<and> calls (world_of (update_row self dbname table_name row_id update_data
                         (w\<lparr>script := []\<rparr>)))
     = calls w @ [connect_request self dbname, OpenCursor (length (conns w)),
                  Execute (length (cursors w))
                    (''UPDATE '' @ Identifier table_name @ '' SET ''
                       @ join '', '' (map (\<lambda>kv. fst kv @ '' = %s'') update_data)
                       @ '' WHERE id = %s'') (map snd update_data @ [row_id]),
                  Commit (length (conns w))]"
  by (simp add: create_database_ok session_ok create_table_ok create_table_query_simps
      add_column_def insert_row_def delete_row_def update_row_def add_column_query_def
      insert_query_def delete_query_def update_query_def set_clause_def comp_def)
     (simp add: proj_defs)

section \<open>Sessions\<close>

text \<open>
  Claim C3 (create_table, insert_row, add_column, delete_row and update_row, called before
  any switch_database, fail with a not-connected error), as the spec states it, fails on the
  code for the four operations that take a database name: they call
  \<^verbatim>\<open>switch_database\<close> themselves.  Here \<^verbatim>\<open>insert_row\<close> is the first call on the facade
  of the example script; it connects, inserts and reports success.
\<close>

theorem insert_row_before_switch_counterexample:
  "out (world_of (insert_row (init ''postgres'' ''postgres'' None None) ''new_db'' ''person''
                    [(''name'', PyStr ''John Doe''), (''age'', PyInt 30)] (fresh [])))
     = [''Successfully switched to database '' @ sq ''new_db'' @ ''.'',
        ''Row inserted into table '' @ sq ''person'' @ ''.'']
   \<and> facade_of (insert_row (init ''postgres'' ''postgres'' None None) ''new_db'' ''person''
                    [(''name'', PyStr ''John Doe''), (''age'', PyInt 30)] (fresh []))
     = (init ''postgres'' ''postgres'' None None)\<lparr>connection := Some 0, cursor := Some 0\<rparr>"
  by (simp add: insert_row_def session_ok fresh_def proj_defs)

text \<open>
  Claim C3, amended: on a facade that was just constructed, \<^verbatim>\<open>create_table\<close> prints
  \<^verbatim>\<open>Not connected to any database.\<close> and returns \<^verbatim>\<open>None\<close> without a call to the
  driver; \<^verbatim>\<open>add_column\<close>, \<^verbatim>\<open>insert_row\<close>, \<^verbatim>\<open>delete_row\<close> and \<^verbatim>\<open>update_row\<close> open
  the session themselves and, on a server that accepts every call, print the line of the
  switch and their line of success.
\<close>

theorem session_operations_before_switch:
  "create_table (init u pw h p) table_name columns w
     = (Inr PyNone, init u pw h p, py_print ''Not connected to any database.'' w)
   \<and> out (world_of (add_column (init u pw h p) dbname table_name column_name column_type
                       (w\<lparr>script := []\<rparr>)))
     = out w @ [''Successfully switched to database '' @ sq dbname @ ''.'',
                ''Column '' @ sq column_name @ '' of type '' @ sq column_type
                  @ '' added to table '' @ sq table_name @ ''.'']
   \<and> out (world_of (insert_row (init u pw h p) dbname table_name column_values
                       (w\<lparr>script := []\<rparr>)))
     = out w @ [''Successfully switched to database '' @ sq dbname @ ''.'',
                ''Row inserted into table '' @ sq table_name @ ''.'']
   \<and> out (world_of (delete_row (init u pw h p) dbname table_name row_id (w\<lparr>script := []\<rparr>)))
     = out w @ [''Successfully switched to database '' @ sq dbname @ ''.'',
                ''Row with id '' @ str row_id @ '' deleted from table '' @ sq table_name
                  @ ''.'']
   \<and> out (world_of (update_row (init u pw h p) dbname table_name row_id update_data
                       (w\<lparr>script := []\<rparr>)))
     = out w @ [''Successfully switched to database '' @ sq dbname @ ''.'',
                ''Row with id '' @ str row_id @ '' updated in table '' @ sq table_name
                  @ ''.'']"
  by (simp add: create_table_def init_def session_ok add_column_def insert_row_def
      delete_row_def update_row_def proj_defs)

text \<open>
  Claim C4 (switch_database closes the connection held before it replaces it), as the spec
  states it, fails on the code: \<^verbatim>\<open>switch_database\<close> has no call to \<^verbatim>\<open>close\<close>.  Here the
  facade of the example script switches to \<^verbatim>\<open>a\<close> and then to \<^verbatim>\<open>b\<close>: it then holds
  connection 1, connection 0 is still open, and the driver saw two connects, two cursors
  and no close.
\<close>

theorem switch_database_leaves_prior_open:
  "connection (facade_of (switch_database (init ''postgres'' ''postgres'' None None) ''a''
                            (fresh []))) = Some 0
   \<and> connection (facade_of
        (switch_database
           (facade_of (switch_database (init ''postgres'' ''postgres'' None None) ''a'' (fresh [])))
           ''b''
           (world_of (switch_database (init ''postgres'' ''postgres'' None None) ''a'' (fresh [])))))
       = Some 1
   \<and> \<not> conn_closed (world_of
        (switch_database
           (facade_of (switch_database (init ''postgres'' ''postgres'' None None) ''a'' (fresh [])))
           ''b''
           (world_of (switch_database (init ''postgres'' ''postgres'' None None) ''a'' (fresh [])))))
        0
   \<and> calls (world_of
        (switch_database
           (facade_of (switch_database (init ''postgres'' ''postgres'' None None) ''a'' (fresh [])))
           ''b''
           (world_of (switch_database (init ''postgres'' ''postgres'' None None) ''a'' (fresh [])))))
       = [Connect ''a'' ''postgres'' ''postgres'' ''localhost'' ''5432'', OpenCursor 0,
          Connect ''b'' ''postgres'' ''postgres'' ''localhost'' ''5432'', OpenCursor 1]"
  by (simp add: switch_database_ok fresh_def init_def proj_defs connect_request_def
      conn_closed_def new_conn_def)

text \<open>
  Claim C4, amended: \<^verbatim>\<open>switch_database\<close> closes nothing.  Whatever the facade holds and
  whatever the server answers, every connection and cursor that existed before the call is
  in the state it was in, and the only calls the driver sees are the connect and, when
  that succeeded, the opening of the cursor.
\<close>

theorem switch_database_never_closes:
  "take (length (conns w)) (conns (world_of (switch_database self dbname w))) = conns w
   \<and> take (length (cursors w)) (cursors (world_of (switch_database self dbname w))) = cursors w
   \<and> (calls (world_of (switch_database self dbname w)) = calls w @ [connect_request self dbname]
      \<or> calls (world_of (switch_database self dbname w))
          = calls w @ [connect_request self dbname, OpenCursor (length (conns w))])"
  by (simp add: switch_database_def driver_defs proj_defs connect_request_def Let_def
      split: list.splits reply.splits)


section \<open>Closing\<close>

text \<open>
  Claim C6: a second \<^verbatim>\<open>close_connection\<close> right after the first returns \<^verbatim>\<open>None\<close>
  without an exception and leaves the facade and every connection and cursor of the driver
  as the first call left them (the close calls are made and the line
  \<^verbatim>\<open>Connection closed.\<close> is printed again); and on a facade that holds neither a
  connection nor a cursor the call changes nothing at all.
\<close>

theorem close_connection_idempotent:
  "result_of (close_connection (facade_of (close_connection self w))
                (world_of (close_connection self w))) = Inr PyNone
   \<and> facade_of (close_connection (facade_of (close_connection self w))
                (world_of (close_connection self w))) = facade_of (close_connection self w)
   \<and> conns (world_of (close_connection (facade_of (close_connection self w))
                (world_of (close_connection self w)))) = conns (world_of (close_connection self w))
   \<and> cursors (world_of (close_connection (facade_of (close_connection self w))
                (world_of (close_connection self w)))) = cursors (world_of (close_connection self w))
   \<and> script (world_of (close_connection (facade_of (close_connection self w))
                (world_of (close_connection self w)))) = script (world_of (close_connection self w))
   \<and> close_connection (self\<lparr>connection := None, cursor := None\<rparr>) w
       = (Inr PyNone, self\<lparr>connection := None, cursor := None\<rparr>, w)"
  by (simp add: close_connection_def driver_defs proj_defs Let_def split: option.splits)

text \<open>
  Claim C9: \<^verbatim>\<open>close_connection\<close> leaves the fields of the facade as they are.  So on a
  facade that holds a connection and a cursor of the driver, both are closed after the call
  and still stored, and a \<^verbatim>\<open>create_table\<close> that follows passes the not-connected check:
  it reaches \<^verbatim>\<open>cursor.execute\<close>, and what it prints is the driver's error about the
  closed cursor, not \<^verbatim>\<open>Not connected to any database.\<close>
\<close>

theorem close_connection_keeps_fields:
  "facade_of (close_connection self w) = self
   \<and> (connection self = Some c \<and> cursor self = Some k
        \<and> c < length (conns w) \<and> k < length (cursors w) \<longrightarrow>
        conn_closed (world_of (close_connection self w)) c
        \<and> curs_closed (world_of (close_connection self w)) k
        \<and> create_table self table_name columns (world_of (close_connection self w))
          = (Inr PyNone, self,
             py_print ''Error: cursor already closed'' (world_of (close_connection self w))))"
  by (simp add: close_connection_def create_table_def execute_commit_def cursor_execute_def
      driver_defs proj_defs exn_str_def Let_def)

theorem close_connection_keeps_fields_witness:
  "connection (facade_of (switch_database (init ''postgres'' ''postgres'' None None) ''new_db''
                 (fresh []))) = Some 0
   \<and> cursor (facade_of (switch_database (init ''postgres'' ''postgres'' None None) ''new_db''
                 (fresh []))) = Some 0
   \<and> 0 < length (conns (world_of (switch_database (init ''postgres'' ''postgres'' None None)
                 ''new_db'' (fresh []))))
   \<and> 0 < length (cursors (world_of (switch_database (init ''postgres'' ''postgres'' None None)
                 ''new_db'' (fresh []))))
   \<and> out (world_of (create_table
        (facade_of (switch_database (init ''postgres'' ''postgres'' None None) ''new_db''
                 (fresh [])))
        ''person'' None
        (world_of (close_connection
           (facade_of (switch_database (init ''postgres'' ''postgres'' None None) ''new_db''
                 (fresh [])))
           (world_of (switch_database (init ''postgres'' ''postgres'' None None) ''new_db''
                 (fresh [])))))))
     = [''Successfully switched to database '' @ sq ''new_db'' @ ''.'',
        ''Connection closed.'',
        ''Error: cursor already closed'']"
  using close_connection_keeps_fields
    [of "facade_of (switch_database (init ''postgres'' ''postgres'' None None) ''new_db''
                 (fresh []))"
        "world_of (switch_database (init ''postgres'' ''postgres'' None None) ''new_db''
                 (fresh []))"
        0 0 "''person''" None]
  by (simp add: switch_database_ok fresh_def proj_defs)
     (simp add: close_connection_def driver_defs Let_def)

section \<open>Credentials\<close>

lemma execute_commit_facade: "facade_of (execute_commit self q ps ok w) = self"
  by (simp add: execute_commit_def facade_of_def split: prod.splits sum.splits)

lemma switch_database_credentials:
  "credentials (facade_of (switch_database self db w)) = credentials self"
  by (simp add: switch_database_def facade_of_def credentials_def Let_def
      split: prod.splits sum.splits)

lemma session_alt:
  "(case switch_database self db w of (_, self1, w1) \<Rightarrow> execute_commit self1 q ps ok w1)
     = execute_commit (facade_of (switch_database self db w)) q ps ok
         (world_of (switch_database self db w))"
  by (simp add: proj_defs split: prod.splits)

lemma session_credentials:
  "credentials (facade_of (case switch_database self db w of
                             (_, self1, w1) \<Rightarrow> execute_commit self1 q ps ok w1))
     = credentials self"
  by (simp add: session_alt execute_commit_facade switch_database_credentials)

text \<open>
  Claim C8: the constructor stores user, password, host and port, with
  \<^verbatim>\<open>localhost\<close> and \<^verbatim>\<open>5432\<close> where host and port are not given, and every operation of
  the facade leaves the four fields as they are, whatever the server does.
\<close>

theorem credentials_never_modified:
  "credentials (init u pw None None) = (u, pw, ''localhost'', ''5432'')
   \<and> credentials (init u pw (Some h) (Some p)) = (u, pw, h, p)
   \<and> credentials (facade_of (create_database self db w)) = credentials self
   \<and> credentials (facade_of (list_databases self w)) = credentials self
   \<and> credentials (facade_of (switch_database self db w)) = credentials self
   \<and> credentials (facade_of (create_table self t cols w)) = credentials self
   \<and> credentials (facade_of (add_column self db t c ty w)) = credentials self
   \<and> credentials (facade_of (insert_row self db t cv w)) = credentials self
   \<and> credentials (facade_of (delete_row self db t rid w)) = credentials self
   \<and> credentials (facade_of (update_row self db t rid upd w)) = credentials self
   \<and> credentials (facade_of (close_connection self w)) = credentials self"
proof -
  have a: "credentials (init u pw None None) = (u, pw, ''localhost'', ''5432'')"
    and b: "credentials (init u pw (Some h) (Some p)) = (u, pw, h, p)"
    by (simp_all add: init_def credentials_def)
  have c: "facade_of (create_database self db w) = self"
    by (simp add: create_database_def facade_of_def split: prod.splits option.splits)
  have d: "facade_of (list_databases self w) = self"
    by (simp add: list_databases_def facade_of_def split: prod.splits option.splits)
  have e: "facade_of (create_table self t cols w) = self"
    by (simp add: create_table_def execute_commit_facade) (simp add: facade_of_def)
  have f: "facade_of (close_connection self w) = self"
    by (simp add: close_connection_def facade_of_def Let_def)
  show ?thesis
    by (simp add: a b c d e f switch_database_credentials session_credentials
        add_column_def insert_row_def delete_row_def update_row_def)
qed


section \<open>The operations that switch by themselves\<close>

lemma execute_commit_calls:
  "\<exists>ext. calls (world_of (execute_commit self q ps ok w)) = calls w @ ext"
  by (auto simp: execute_commit_def cursor_execute_def connection_commit_def driver_defs
      world_of_def split: option.splits list.splits reply.splits)

lemma execute_commit_conns:
  "conns (world_of (execute_commit self q ps ok w)) = conns w"
  by (auto simp: execute_commit_def cursor_execute_def connection_commit_def driver_defs
      world_of_def split: option.splits list.splits reply.splits)

lemma switch_database_calls:
  "\<exists>ext. calls (world_of (switch_database self db w)) = calls w @ connect_request self db # ext"
  by (auto simp: switch_database_def driver_defs world_of_def connect_request_def Let_def
      split: list.splits reply.splits)

lemma switch_database_refused:
  "script w = Fails m # rs \<Longrightarrow>
   facade_of (switch_database self db w) = self
   \<and> conns (world_of (switch_database self db w)) = conns w"
  by (simp add: switch_database_def driver_defs proj_defs)

lemma switch_database_connected:
  "script w = [] \<or> script w = Done # rs \<or> script w = Rows rows # rs \<Longrightarrow>
   connection (facade_of (switch_database self db w)) = Some (length (conns w))
   \<and> conns (world_of (switch_database self db w)) = conns w @ [new_conn self db]"
  by (auto simp: switch_database_def driver_defs proj_defs new_conn_def Let_def
      split: list.splits reply.splits)

lemma session_first_call:
  "take (Suc (length (calls w)))
     (calls (world_of (case switch_database self db w of
                         (_, self1, w1) \<Rightarrow> execute_commit self1 q ps ok w1)))
     = calls w @ [connect_request self db]"
proof -
  obtain e1 where e1: "calls (world_of (switch_database self db w))
      = calls w @ connect_request self db # e1"
    using switch_database_calls by blast
  obtain e2 where e2: "calls (world_of (execute_commit (facade_of (switch_database self db w))
      q ps ok (world_of (switch_database self db w))))
      = calls (world_of (switch_database self db w)) @ e2"
    using execute_commit_calls by blast
  show ?thesis
    by (simp add: session_alt e2 e1)
qed

lemma session_refused:
  "script w = Fails m # rs \<Longrightarrow>
   facade_of (case switch_database self db w of
                (_, self1, w1) \<Rightarrow> execute_commit self1 q ps ok w1) = self
   \<and> conns (world_of (case switch_database self db w of
                (_, self1, w1) \<Rightarrow> execute_commit self1 q ps ok w1)) = conns w"
  by (simp add: session_alt execute_commit_facade execute_commit_conns switch_database_refused)

lemma session_connected:
  "script w = [] \<or> script w = Done # rs \<or> script w = Rows rows # rs \<Longrightarrow>
   connection (facade_of (case switch_database self db w of
                (_, self1, w1) \<Rightarrow> execute_commit self1 q ps ok w1)) = Some (length (conns w))
   \<and> conns (world_of (case switch_database self db w of
                (_, self1, w1) \<Rightarrow> execute_commit self1 q ps ok w1))
       = conns w @ [new_conn self db]"
  by (simp add: session_alt execute_commit_facade execute_commit_conns
      switch_database_connected)

text \<open>
  Claim C7 (every add_column, insert_row, update_row and delete_row calls switch_database
  first, so each such call replaces the stored session with a fresh connection), as the
  spec states it, fails on the code when the connect of that inner switch raises:
  \<^verbatim>\<open>switch_database\<close> prints the error and returns, the fields keep what they held, and
  the statement runs on the connection that was there before.  Here the facade of the
  example script is connected to \<^verbatim>\<open>new_db\<close>, and the server refuses the next connect.
\<close>

theorem insert_row_keeps_stale_session:
  "connection (facade_of (switch_database (init ''postgres'' ''postgres'' None None) ''new_db''
                            (fresh [Done, Done, Fails ''too many connections'']))) = Some 0
   \<and> facade_of
        (insert_row
           (facade_of (switch_database (init ''postgres'' ''postgres'' None None) ''new_db''
                         (fresh [Done, Done, Fails ''too many connections''])))
           ''new_db'' ''person'' [(''name'', PyStr ''John Doe'')]
           (world_of (switch_database (init ''postgres'' ''postgres'' None None) ''new_db''
                         (fresh [Done, Done, Fails ''too many connections'']))))
       = facade_of (switch_database (init ''postgres'' ''postgres'' None None) ''new_db''
                         (fresh [Done, Done, Fails ''too many connections'']))
   \<and> calls (world_of
        (insert_row
           (facade_of (switch_database (init ''postgres'' ''postgres'' None None) ''new_db''
                         (fresh [Done, Done, Fails ''too many connections''])))
           ''new_db'' ''person'' [(''name'', PyStr ''John Doe'')]
           (world_of (switch_database (init ''postgres'' ''postgres'' None None) ''new_db''
                         (fresh [Done, Done, Fails ''too many connections''])))))
       = [Connect ''new_db'' ''postgres'' ''postgres'' ''localhost'' ''5432'', OpenCursor 0,
          Connect ''new_db'' ''postgres'' ''postgres'' ''localhost'' ''5432'',
          Execute 0 (''INSERT INTO '' @ Identifier ''person'' @ '' ('' @ Identifier ''name''
                       @ '') VALUES ('' @ Literal (PyStr ''John Doe'') @ '')'') [],
          Commit 0]"
  by (simp add: insert_row_def switch_database_def execute_commit_def cursor_execute_def
      connection_commit_def driver_defs proj_defs fresh_def init_def insert_query_def Let_def)

text \<open>
  Claim C7, amended: every add_column, insert_row, update_row and delete_row calls
  \<^verbatim>\<open>switch_database\<close> on its dbname argument before anything else, whatever the facade
  holds, also a session on that same database: the first call the driver sees is the
  connect to dbname.  When that connect succeeds the stored connection is replaced by
  the new one, which did not exist before; when it raises, the facade is left as it was.
\<close>

theorem row_operations_switch_first:
  "take (Suc (length (calls w)))
       (calls (world_of (add_column self dbname table_name column_name column_type w)))
     = calls w @ [connect_request self dbname]
   \<and> take (Suc (length (calls w)))
       (calls (world_of (insert_row self dbname table_name column_values w)))
     = calls w @ [connect_request self dbname]
   \<and> take (Suc (length (calls w)))
       (calls (world_of (delete_row self dbname table_name row_id w)))
     = calls w @ [connect_request self dbname]
   \<and> take (Suc (length (calls w)))
       (calls (world_of (update_row self dbname table_name row_id update_data w)))
     = calls w @ [connect_request self dbname]
   \<and> (case script w of
        Fails m # _ \<Rightarrow>
          facade_of (add_column self dbname table_name column_name column_type w) = self
          \<and> facade_of (insert_row self dbname table_name column_values w) = self
          \<and> facade_of (delete_row self dbname table_name row_id w) = self
          \<and> facade_of (update_row self dbname table_name row_id update_data w) = self
      | _ \<Rightarrow>
          connection (facade_of (add_column self dbname table_name column_name column_type w))
            = Some (length (conns w))
          \<and> conns (world_of (add_column self dbname table_name column_name column_type w))
            = conns w @ [new_conn self dbname]
          \<and> connection (facade_of (insert_row self dbname table_name column_values w))
            = Some (length (conns w))
          \<and> conns (world_of (insert_row self dbname table_name column_values w))
            = conns w @ [new_conn self dbname]
          \<and> connection (facade_of (delete_row self dbname table_name row_id w))
            = Some (length (conns w))
          \<and> conns (world_of (delete_row self dbname table_name row_id w))
            = conns w @ [new_conn self dbname]
          \<and> connection (facade_of (update_row self dbname table_name row_id update_data w))
            = Some (length (conns w))
          \<and> conns (world_of (update_row self dbname table_name row_id update_data w))
            = conns w @ [new_conn self dbname])"
proof -
  have first:
    "take (Suc (length (calls w)))
       (calls (world_of (add_column self dbname table_name column_name column_type w)))
     = calls w @ [connect_request self dbname]"
    "take (Suc (length (calls w)))
       (calls (world_of (insert_row self dbname table_name column_values w)))
     = calls w @ [connect_request self dbname]"
    "take (Suc (length (calls w)))
       (calls (world_of (delete_row self dbname table_name row_id w)))
     = calls w @ [connect_request self dbname]"
    "take (Suc (length (calls w)))
       (calls (world_of (update_row self dbname table_name row_id update_data w)))
     = calls w @ [connect_request self dbname]"
    unfolding add_column_def insert_row_def delete_row_def update_row_def
    by (rule session_first_call)+
  have rest: "(case script w of
        Fails m # _ \<Rightarrow>
          facade_of (add_column self dbname table_name column_name column_type w) = self
          \<and> facade_of (insert_row self dbname table_name column_values w) = self
          \<and> facade_of (delete_row self dbname table_name row_id w) = self
          \<and> facade_of (update_row self dbname table_name row_id update_data w) = self
      | _ \<Rightarrow>
          connection (facade_of (add_column self dbname table_name column_name column_type w))
            = Some (length (conns w))
          \<and> conns (world_of (add_column self dbname table_name column_name column_type w))
            = conns w @ [new_conn self dbname]
          \<and> connection (facade_of (insert_row self dbname table_name column_values w))
            = Some (length (conns w))
          \<and> conns (world_of (insert_row self dbname table_name column_values w))
            = conns w @ [new_conn self dbname]
          \<and> connection (facade_of (delete_row self dbname table_name row_id w))
            = Some (length (conns w))
          \<and> conns (world_of (delete_row self dbname table_name row_id w))
            = conns w @ [new_conn self dbname]
          \<and> connection (facade_of (update_row self dbname table_name row_id update_data w))
            = Some (length (conns w))
          \<and> conns (world_of (update_row self dbname table_name row_id update_data w))
            = conns w @ [new_conn self dbname])"
  proof (cases "script w")
    case Nil
    then have ok: "script w = [] \<or> script w = Done # [] \<or> script w = Rows [] # []"
      by simp
    show ?thesis
      unfolding add_column_def insert_row_def delete_row_def update_row_def
      by (simp add: Nil session_connected [OF ok])
  next
    case (Cons r rs)
    show ?thesis
    proof (cases r)
      case Done
      with Cons have ok: "script w = [] \<or> script w = Done # rs \<or> script w = Rows [] # rs"
        by simp
      show ?thesis
        unfolding add_column_def insert_row_def delete_row_def update_row_def
        by (simp add: Cons Done session_connected [OF ok])
    next
      case (Rows rows)
      with Cons have ok: "script w = [] \<or> script w = Done # rs \<or> script w = Rows rows # rs"
        by simp
      show ?thesis
        unfolding add_column_def insert_row_def delete_row_def update_row_def
        by (simp add: Cons Rows session_connected [OF ok])
    next
      case (Fails m)
      with Cons have no: "script w = Fails m # rs"
        by simp
      show ?thesis
        unfolding add_column_def insert_row_def delete_row_def update_row_def
        by (simp add: Cons Fails session_refused [OF no])
    qed
  qed
  from first rest show ?thesis
    by (simp only: simp_thms)
qed


section \<open>Column names in UPDATE and INSERT\<close>

lemma join_Cons: "join sep (x # xs) = (if xs = [] then x else x @ sep @ join sep xs)"
  by (cases xs) simp_all

lemma join_contains:
  "x \<in> set xs \<Longrightarrow> \<exists>pre post. join sep (map f xs) = pre @ f x @ post"
proof (induction xs)
  case Nil
  then show ?case by simp
next
  case (Cons a xs)
  show ?case
  proof (cases "x = a")
    case True
    have "join sep (map f (a # xs)) = [] @ f x @ (if xs = [] then [] else sep @ join sep (map f xs))"
      by (simp add: join_Cons True)
    then show ?thesis by blast
  next
    case False
    with Cons.prems have mem: "x \<in> set xs" by simp
    then obtain pre post where eq: "join sep (map f xs) = pre @ f x @ post"
      using Cons.IH by blast
    from mem have "xs \<noteq> []" by auto
    then have "join sep (map f (a # xs)) = (f a @ sep @ pre) @ f x @ post"
      by (simp add: join_Cons eq)
    then show ?thesis by blast
  qed
qed

text \<open>
  Claim C10: on a server that accepts every call, \<^verbatim>\<open>update_row\<close> executes
  \<^verbatim>\<open>UPDATE\<close>, the quoted table name, \<^verbatim>\<open>SET\<close>, then for each key of the mapping, in
  order, the key as given followed by \<^verbatim>\<open> = %s\<close>, joined by commas, then
  \<^verbatim>\<open>WHERE id = %s\<close>; the values of the mapping and then the row id are the bound
  parameters.  So every key of the mapping stands in the executed text as it was given.
  \<^verbatim>\<open>insert_row\<close> renders each column name of its mapping as a quoted identifier, and it
  binds no parameters.
\<close>

theorem update_row_interpolates_keys:
  "calls (world_of (update_row self dbname table_name row_id update_data
                      (w\<lparr>script := []\<rparr>)))
     = calls w @ [connect_request self dbname, OpenCursor (length (conns w)),
                  Execute (length (cursors w))
                    (''UPDATE '' @ Identifier table_name @ '' SET ''
                       @ join '', '' (map (\<lambda>kv. fst kv @ '' = %s'') update_data)
                       @ '' WHERE id = %s'') (map snd update_data @ [row_id]),
                  Commit (length (conns w))]
   \<and> (\<forall>kv \<in> set update_data. \<exists>pre post.
         Execute (length (cursors w)) (pre @ fst kv @ '' = %s'' @ post)
           (map snd update_data @ [row_id])
         \<in> set (calls (world_of (update_row self dbname table_name row_id update_data
                                    (w\<lparr>script := []\<rparr>)))))
   \<and> calls (world_of (insert_row self dbname table_name column_values (w\<lparr>script := []\<rparr>)))
     = calls w @ [connect_request self dbname, OpenCursor (length (conns w)),
                  Execute (length (cursors w))
                    (''INSERT INTO '' @ Identifier table_name @ '' (''
                       @ join '', '' (map (\<lambda>kv. Identifier (fst kv)) column_values)
                       @ '') VALUES (''
                       @ join '', '' (map (\<lambda>kv. Literal (snd kv)) column_values) @ '')'') [],
                  Commit (length (conns w))]"
proof -
  let ?q = "''UPDATE '' @ Identifier table_name @ '' SET ''
              @ join '', '' (map (\<lambda>kv. fst kv @ '' = %s'') update_data) @ '' WHERE id = %s''"
  have upd: "calls (world_of (update_row self dbname table_name row_id update_data
                      (w\<lparr>script := []\<rparr>)))
     = calls w @ [connect_request self dbname, OpenCursor (length (conns w)),
                  Execute (length (cursors w)) ?q (map snd update_data @ [row_id]),
                  Commit (length (conns w))]"
    by (simp add: session_ok update_row_def update_query_def set_clause_def comp_def)
       (simp add: proj_defs)
  have ins: "calls (world_of (insert_row self dbname table_name column_values
                      (w\<lparr>script := []\<rparr>)))
     = calls w @ [connect_request self dbname, OpenCursor (length (conns w)),
                  Execute (length (cursors w))
                    (''INSERT INTO '' @ Identifier table_name @ '' (''
                       @ join '', '' (map (\<lambda>kv. Identifier (fst kv)) column_values)
                       @ '') VALUES (''
                       @ join '', '' (map (\<lambda>kv. Literal (snd kv)) column_values) @ '')'') [],
                  Commit (length (conns w))]"
    by (simp add: session_ok insert_row_def insert_query_def comp_def) (simp add: proj_defs)
  have keys: "\<exists>pre post.
         Execute (length (cursors w)) (pre @ fst kv @ '' = %s'' @ post)
           (map snd update_data @ [row_id])
         \<in> set (calls (world_of (update_row self dbname table_name row_id update_data
                                    (w\<lparr>script := []\<rparr>))))"
    if mem: "kv \<in> set update_data" for kv
  proof -
    obtain pre post where
      eq: "join '', '' (map (\<lambda>kv. fst kv @ '' = %s'') update_data)
             = pre @ (fst kv @ '' = %s'') @ post"
      using join_contains [OF mem, of "'', ''" "\<lambda>kv. fst kv @ '' = %s''"] by blast
    have "?q = (''UPDATE '' @ Identifier table_name @ '' SET '' @ pre) @ fst kv @ '' = %s''
                 @ (post @ '' WHERE id = %s'')"
      by (simp add: eq)
    then have "Execute (length (cursors w))
                 ((''UPDATE '' @ Identifier table_name @ '' SET '' @ pre) @ fst kv @ '' = %s''
                    @ (post @ '' WHERE id = %s''))
                 (map snd update_data @ [row_id])
               \<in> set (calls (world_of (update_row self dbname table_name row_id update_data
                                          (w\<lparr>script := []\<rparr>))))"
      by (simp only: upd) simp
    then show ?thesis by blast
  qed
  from upd ins keys show ?thesis
    by blast
qed

theorem update_row_interpolates_keys_witness:
  "(''age'', PyInt 31) \<in> set [(''name'', PyStr ''Jane Doe''), (''age'', PyInt 31)]
   \<and> (\<exists>pre post.
         Execute 0 (pre @ ''age'' @ '' = %s'' @ post) [PyStr ''Jane Doe'', PyInt 31, PyInt 2]
         \<in> set (calls (world_of (update_row (init ''postgres'' ''postgres'' None None)
                                    ''new_db'' ''person'' (PyInt 2)
                                    [(''name'', PyStr ''Jane Doe''), (''age'', PyInt 31)]
                                    (fresh [])))))
   \<and> calls (world_of (update_row (init ''postgres'' ''postgres'' None None)
                         ''new_db'' ''person'' (PyInt 2)
                         [(''name'', PyStr ''Jane Doe''), (''age'', PyInt 31)] (fresh [])))
     = [Connect ''new_db'' ''postgres'' ''postgres'' ''localhost'' ''5432'', OpenCursor 0,
        Execute 0 (''UPDATE '' @ Identifier ''person''
                     @ '' SET name = %s, age = %s WHERE id = %s'')
          [PyStr ''Jane Doe'', PyInt 31, PyInt 2],
        Commit 0]"
proof -
  have w: "(fresh [])\<lparr>script := []\<rparr> = fresh []"
    by (simp add: fresh_def)
  have mem: "(''age'', PyInt 31) \<in> set [(''name'', PyStr ''Jane Doe''), (''age'', PyInt 31)]"
    by simp
  note t = update_row_interpolates_keys
    [of "init ''postgres'' ''postgres'' None None" "''new_db''" "''person''" "PyInt 2"
        "[(''name'', PyStr ''Jane Doe''), (''age'', PyInt 31)]" "fresh []", unfolded w]
  from t have all: "\<forall>kv \<in> set [(''name'', PyStr ''Jane Doe''), (''age'', PyInt 31)].
      \<exists>pre post.
         Execute (length (cursors (fresh []))) (pre @ fst kv @ '' = %s'' @ post)
           (map snd [(''name'', PyStr ''Jane Doe''), (''age'', PyInt 31)] @ [PyInt 2])
         \<in> set (calls (world_of (update_row (init ''postgres'' ''postgres'' None None)
                                    ''new_db'' ''person'' (PyInt 2)
                                    [(''name'', PyStr ''Jane Doe''), (''age'', PyInt 31)]
                                    (fresh []))))"
    by blast
  have ex: "\<exists>pre post.
         Execute 0 (pre @ ''age'' @ '' = %s'' @ post) [PyStr ''Jane Doe'', PyInt 31, PyInt 2]
         \<in> set (calls (world_of (update_row (init ''postgres'' ''postgres'' None None)
                                    ''new_db'' ''person'' (PyInt 2)
                                    [(''name'', PyStr ''Jane Doe''), (''age'', PyInt 31)]
                                    (fresh []))))"
    using bspec [OF all mem] by (simp add: fresh_def)
  from t have "calls (world_of (update_row (init ''postgres'' ''postgres'' None None)
                         ''new_db'' ''person'' (PyInt 2)
                         [(''name'', PyStr ''Jane Doe''), (''age'', PyInt 31)] (fresh [])))
     = [Connect ''new_db'' ''postgres'' ''postgres'' ''localhost'' ''5432'', OpenCursor 0,
        Execute 0 (''UPDATE '' @ Identifier ''person''
                     @ '' SET name = %s, age = %s WHERE id = %s'')
          [PyStr ''Jane Doe'', PyInt 31, PyInt 2],
        Commit 0]"
    by (simp add: fresh_def init_def connect_request_def)
  with mem ex show ?thesis
    by blast
qed


section \<open>A refused connect on a new facade\<close>

text \<open>
  When the connect inside \<^verbatim>\<open>insert_row\<close> raises on a facade that never had a session,
  \<^verbatim>\<open>switch_database\<close> prints the error, \<^verbatim>\<open>self.cursor\<close> is still \<^verbatim>\<open>None\<close>, and
  \<^verbatim>\<open>self.cursor.execute\<close> raises the AttributeError that the method then prints.
\<close>

lemma insert_row_after_refused_connect:
  "insert_row (init u pw h p) dbname table_name column_values (w\<lparr>script := Fails m # rs\<rparr>)
     = (Inr PyNone, init u pw h p,
        w\<lparr>calls := calls w @ [connect_request (init u pw h p) dbname],
          out := out w @ [''Error: '' @ m,
                          ''Error: '' @ sq ''NoneType'' @ '' object has no attribute ''
                            @ sq ''execute''],
          script := rs\<rparr>)"
  by (simp add: insert_row_def switch_database_def execute_commit_def cursor_execute_def
      driver_defs init_def connect_request_def exn_str_def)


end
